theory Spec2Isabelle
  imports Main "HOL-Library.Sublist"
begin

section \<open>Errors\<close>

text \<open>
  Go errors as values. \<open>ErrUnconfiguredProvider\<close> is the sentinel of the registry
  package; \<open>Errorf\<close> is an error made by \<open>fmt.Errorf\<close> from a message alone;
  \<open>Wrap p e\<close> is \<open>fmt.Errorf(p + "%w", e)\<close>, which keeps \<open>e\<close> reachable for
  \<open>errors.Is\<close>. The other constructors are the errors of the libraries the code
  calls and returns unchanged: of \<open>http.NewRequestWithContext\<close>, of
  \<open>http.Client.Do\<close> (which includes a cancelled context) and of
  \<open>json.Decoder.Decode\<close>. The last three are the failures the spec names for the
  exchangers whose code is modelled from the spec, with the defect that caused them.
\<close>

datatype defect =
    MalformedBody
  | NoAuthorizationData
  | NoAuthorizationToken
  | MalformedBase64
  | MissingSeparator
  | UnexpectedStatus
  | NoRefreshToken

datatype error =
    ErrUnconfiguredProvider
  | Errorf string
  | Wrap string error
  | RequestError string
  | TransportError string
  | JsonSyntaxError string
  | JsonUnmarshalTypeError string string
  | ErrInvalidImage
  | ErrInvalidResponse defect
  | ErrInvalidToken defect

fun errors_Is :: "error \<Rightarrow> error \<Rightarrow> bool" where
  "errors_Is (Wrap p e) target = (Wrap p e = target \<or> errors_Is e target)"
| "errors_Is e target = (e = target)"

section \<open>The libraries' data\<close>

text \<open>
  \<open>authn.AuthConfig\<close> with its five string fields, the authenticator that
  \<open>authn.FromConfig\<close> builds from one, and the parsed reference, of which the
  registry host and the repository are read.
\<close>

record AuthConfig =
  Username :: string
  Password :: string
  Auth :: string
  IdentityToken :: string
  RegistryToken :: string

definition zero_AuthConfig :: AuthConfig where
  "zero_AuthConfig =
     \<lparr>Username = [], Password = [], Auth = [], IdentityToken = [], RegistryToken = []\<rparr>"

datatype Authenticator = FromConfig AuthConfig

record Reference =
  registryHost :: string
  repository :: string

text \<open>
  A JSON value. A number keeps what the decoder of an \<open>int\<close> field looks at:
  \<open>IntLit i\<close> is a literal in integer syntax, \<open>OtherLit s\<close> a literal with a
  fraction or an exponent. An object keeps its members in order, duplicates included.
\<close>

datatype number = IntLit int | OtherLit string

datatype json =
    JNull
  | JBool bool
  | JNumber number
  | JString string
  | JArray "json list"
  | JObject "(string \<times> json) list"

text \<open>
  What \<open>json.Decoder\<close> reads from a response body: the first JSON value of the
  stream, or no value at all (a syntax error, an empty or a truncated body), with the
  decoder's message.
\<close>

datatype body = NotJson string | Json json

record request =
  req_method :: string
  req_url :: string
  req_header :: "(string \<times> string) list"

record response =
  StatusCode :: int
  Status :: string
  Body :: body

text \<open>
  The network the client talks to: whether \<open>http.NewRequestWithContext\<close> refuses a
  method and URL, and what \<open>http.Client.Do\<close> returns for a request.
\<close>

record network =
  new_request_error :: "string \<Rightarrow> string \<Rightarrow> error option"
  round_trip :: "request \<Rightarrow> error + response"

definition NewRequestWithContext :: "network \<Rightarrow> string \<Rightarrow> string \<Rightarrow> error + request" where
  "NewRequestWithContext net m u =
     (case new_request_error net m u of
        Some err \<Rightarrow> Inl err
      | None \<Rightarrow> Inr \<lparr>req_method = m, req_url = u, req_header = []\<rparr>)"

definition Header_Add :: "request \<Rightarrow> string \<Rightarrow> string \<Rightarrow> request" where
  "Header_Add r k v = r\<lparr>req_header := req_header r @ [(k, v)]\<rparr>"

section \<open>Decoding the token: encoding/json on gceToken\<close>

record gceToken =
  AccessToken :: string
  ExpiresIn :: int
  TokenType :: string

definition zero_gceToken :: gceToken where
  "zero_gceToken = \<lparr>AccessToken = [], ExpiresIn = 0, TokenType = []\<rparr>"

text \<open>
  The decoder matches an object key to a struct field by the field's JSON name, exactly
  or up to case folding. \<open>foldName\<close> folds a key as the decoder does: an ASCII letter
  to upper case, the Kelvin sign (UTF-8 E2 84 AA) to K and the long s (UTF-8 C5 BF) to
  S, the only characters beyond ASCII that fold to an ASCII letter.
\<close>

definition toUpper :: "char \<Rightarrow> char" where
  "toUpper c =
     (let n = (of_char c :: nat) in if 97 \<le> n \<and> n \<le> 122 then char_of (n - 32) else c)"

fun foldName :: "string \<Rightarrow> string" where
  "foldName (a # b # c # cs) =
     (if a = CHR 0xE2 \<and> b = CHR 0x84 \<and> c = CHR 0xAA then CHR ''K'' # foldName cs
      else if a = CHR 0xC5 \<and> b = CHR 0xBF then CHR ''S'' # foldName (c # cs)
      else toUpper a # foldName (b # c # cs))"
| "foldName [a, b] =
     (if a = CHR 0xC5 \<and> b = CHR 0xBF then [CHR ''S''] else [toUpper a, toUpper b])"
| "foldName [a] = [toUpper a]"
| "foldName [] = []"

definition field_matches :: "string \<Rightarrow> string \<Rightarrow> bool" where
  "field_matches name k = (k = name \<or> foldName k = foldName name)"

text \<open>
  Storing a JSON value into a field: \<open>null\<close> leaves the field as it is, a value of
  the field's type is stored, anything else is a type error (\<open>None\<close>). An \<open>int\<close>
  field takes a literal in integer syntax that fits 64 bits.
\<close>

fun store_string :: "json \<Rightarrow> string \<Rightarrow> string option" where
  "store_string JNull old = Some old"
| "store_string (JString s) old = Some s"
| "store_string v old = None"

fun store_int :: "json \<Rightarrow> int \<Rightarrow> int option" where
  "store_int JNull old = Some old"
| "store_int (JNumber (IntLit i)) old =
     (if - (2 ^ 63) \<le> i \<and> i < 2 ^ 63 then Some i else None)"
| "store_int v old = None"

fun json_kind :: "json \<Rightarrow> string" where
  "json_kind JNull = ''null''"
| "json_kind (JBool b) = ''bool''"
| "json_kind (JNumber n) = ''number''"
| "json_kind (JString s) = ''string''"
| "json_kind (JArray vs) = ''array''"
| "json_kind (JObject ms) = ''object''"

text \<open>
  One member of the object. A key that matches no field is skipped. The decoder goes
  on after a type error and reports the first one at the end, so the state carries the
  token and the first error.
\<close>

definition save_error :: "error option \<Rightarrow> error \<Rightarrow> error option" where
  "save_error saved err = (case saved of None \<Rightarrow> Some err | Some e \<Rightarrow> Some e)"

definition decode_member :: "gceToken \<times> error option \<Rightarrow> string \<times> json \<Rightarrow> gceToken \<times> error option" where
  "decode_member st m =
     (let tok = fst st; saved = snd st; k = fst m; v = snd m in
      if field_matches ''access_token'' k then
        (case store_string v (AccessToken tok) of
           Some s \<Rightarrow> (tok\<lparr>AccessToken := s\<rparr>, saved)
         | None \<Rightarrow> (tok, save_error saved (JsonUnmarshalTypeError (json_kind v) ''gceToken.access_token'')))
      else if field_matches ''expires_in'' k then
        (case store_int v (ExpiresIn tok) of
           Some i \<Rightarrow> (tok\<lparr>ExpiresIn := i\<rparr>, saved)
         | None \<Rightarrow> (tok, save_error saved (JsonUnmarshalTypeError (json_kind v) ''gceToken.expires_in'')))
      else if field_matches ''token_type'' k then
        (case store_string v (TokenType tok) of
           Some s \<Rightarrow> (tok\<lparr>TokenType := s\<rparr>, saved)
         | None \<Rightarrow> (tok, save_error saved (JsonUnmarshalTypeError (json_kind v) ''gceToken.token_type'')))
      else (tok, saved))"

fun decode_members :: "gceToken \<times> error option \<Rightarrow> (string \<times> json) list \<Rightarrow> gceToken \<times> error option" where
  "decode_members st [] = st"
| "decode_members st (m # ms) = decode_members (decode_member st m) ms"

text \<open>
  \<open>decoder.Decode(&accessToken)\<close> on a zero token: no JSON value is an error; \<open>null\<close>
  changes nothing; an object is decoded member by member; any other value is a type
  error.
\<close>

fun Decode :: "body \<Rightarrow> gceToken \<Rightarrow> gceToken \<times> error option" where
  "Decode (NotJson msg) tok = (tok, Some (JsonSyntaxError msg))"
| "Decode (Json JNull) tok = (tok, None)"
| "Decode (Json (JObject ms)) tok = decode_members (tok, None) ms"
| "Decode (Json v) tok = (tok, Some (JsonUnmarshalTypeError (json_kind v) ''gceToken''))"

section \<open>internal/registry/gcp/auth.go\<close>

definition GCP_TOKEN_URL :: string where
  "GCP_TOKEN_URL =
     ''http://metadata.google.internal/computeMetadata/v1/instance/service-accounts/default/token''"

text \<open>\<open>strings.HasSuffix\<close>: the last \<open>len(suffix)\<close> bytes of \<open>s\<close> are \<open>suffix\<close>.\<close>

definition HasSuffix :: "string \<Rightarrow> string \<Rightarrow> bool" where
  "HasSuffix s sfx =
     (length s \<ge> length sfx \<and> drop (length s - length sfx) s = sfx)"

definition gcp_ValidHost :: "string \<Rightarrow> bool" where
  "gcp_ValidHost host =
     (host = ''gcr.io'' \<or> HasSuffix host ''.gcr.io'' \<or> HasSuffix host ''-docker.pkg.dev'')"

record Client =
  tokenURL :: string

definition NewClient :: Client where
  "NewClient = \<lparr>tokenURL = GCP_TOKEN_URL\<rparr>"

definition WithTokenURL :: "Client \<Rightarrow> string \<Rightarrow> Client" where
  "WithTokenURL c u = c\<lparr>tokenURL := u\<rparr>"

text \<open>
  \<open>getLoginAuth\<close> returns the pair of Go, (AuthConfig, error), and the requests it
  handed to \<open>client.Do\<close>, in order. Log lines are written to the logger of the
  context and are not part of the result.
\<close>

definition gcp_getLoginAuth :: "network \<Rightarrow> Client \<Rightarrow> (AuthConfig \<times> error option) \<times> request list" where
  "gcp_getLoginAuth net c =
     (let authConfig = zero_AuthConfig in
      case NewRequestWithContext net ''GET'' (tokenURL c) of
        Inl err \<Rightarrow> ((authConfig, Some err), [])
      | Inr request0 \<Rightarrow>
          let request = Header_Add request0 ''Metadata-Flavor'' ''Google'' in
          (case round_trip net request of
             Inl err \<Rightarrow> ((authConfig, Some err), [request])
           | Inr response \<Rightarrow>
               if StatusCode response \<noteq> 200 then
                 ((authConfig,
                   Some (Errorf (''unexpected status from metadata service: '' @ Status response))),
                  [request])
               else
                 (case Decode (Body response) zero_gceToken of
                    (accessToken, Some err) \<Rightarrow> ((authConfig, Some err), [request])
                  | (accessToken, None) \<Rightarrow>
                      ((authConfig\<lparr>Username := ''oauth2accesstoken'',
                                    Password := AccessToken accessToken\<rparr>, None),
                       [request]))))"

definition gcp_Login ::
  "network \<Rightarrow> Client \<Rightarrow> bool \<Rightarrow> string \<Rightarrow> Reference \<Rightarrow> (Authenticator option \<times> error option) \<times> request list" where
  "gcp_Login net c autoLogin img ref =
     (if autoLogin then
        (case gcp_getLoginAuth net c of
           ((authConfig, Some err), sent) \<Rightarrow> ((None, Some err), sent)
         | ((authConfig, None), sent) \<Rightarrow> ((Some (FromConfig authConfig), None), sent))
      else ((None, Some (Wrap ''GCR authentication failed: '' ErrUnconfiguredProvider)), []))"

section \<open>The failure taxonomy of the spec\<close>

text \<open>
  The spec sorts failures into UnconfiguredProvider (auto-login disabled or no client),
  InvalidImage (the image is not the provider's), InvalidResponse (a non-success status
  or an undecodable body), InvalidToken (a decodable body with a malformed credential)
  and transport errors. \<open>failure_of\<close> is that classification of the errors above,
  written from the spec's words; the only error the GCP code builds from a message
  alone is the one for a non-success status.
\<close>

datatype failure = UnconfiguredProvider | InvalidImage | InvalidResponse | InvalidToken | Transport

fun failure_of :: "error \<Rightarrow> failure" where
  "failure_of ErrUnconfiguredProvider = UnconfiguredProvider"
| "failure_of (Wrap p e) = failure_of e"
| "failure_of (Errorf msg) = InvalidResponse"
| "failure_of (RequestError msg) = Transport"
| "failure_of (TransportError msg) = Transport"
| "failure_of (JsonSyntaxError msg) = InvalidResponse"
| "failure_of (JsonUnmarshalTypeError v f) = InvalidResponse"
| "failure_of ErrInvalidImage = InvalidImage"
| "failure_of (ErrInvalidResponse d) = InvalidResponse"
| "failure_of (ErrInvalidToken d) = InvalidToken"

section \<open>Requests, servers and bodies of the statements\<close>

text \<open>
  The request \<open>getLoginAuth\<close> sends: a GET of the token URL with the header
  Metadata-Flavor: Google.
\<close>

definition metadata_request :: "Client \<Rightarrow> request" where
  "metadata_request c =
     \<lparr>req_method = ''GET'', req_url = tokenURL c, req_header = [(''Metadata-Flavor'', ''Google'')]\<rparr>"

text \<open>
  The server of the tests (\<open>httptest.NewServer\<close>): every request is accepted and
  answered with the same status and body.
\<close>

definition test_server :: "int \<Rightarrow> string \<Rightarrow> body \<Rightarrow> network" where
  "test_server code st b =
     \<lparr>new_request_error = (\<lambda>m u. None),
      round_trip = (\<lambda>req. Inr \<lparr>StatusCode = code, Status = st, Body = b\<rparr>)\<rparr>"



section \<open>The provider classifier and the AWS image parser\<close>

datatype Provider = ProviderAWS | ProviderGCR | ProviderAzure | ProviderGeneric

text \<open>
  Splitting a string at every occurrence of a separator (as \<open>strings.Split\<close> with a
  one-character separator) and joining the pieces again.
\<close>

fun split_on :: "char \<Rightarrow> string \<Rightarrow> string list" where
  "split_on c [] = [[]]"
| "split_on c (x # xs) =
     (if x = c then [] # split_on c xs
      else (case split_on c xs of w # ws \<Rightarrow> (x # w) # ws | [] \<Rightarrow> [[x]]))"

fun join_on :: "char \<Rightarrow> string list \<Rightarrow> string" where
  "join_on c [] = []"
| "join_on c [w] = w"
| "join_on c (w # v # ws) = w @ c # join_on c (v # ws)"

definition is_digit :: "char \<Rightarrow> bool" where
  "is_digit c = (let n = (of_char c :: nat) in 48 \<le> n \<and> n \<le> 57)"

text \<open>
  Modelled from the spec: the ECR host pattern, whose code (the pattern of the aws
  package) is not among the sources. Section 4.1 gives it as exactly the dot-separated
  segments \<open>{12-digit-account-id}.dkr.ecr.{region}.amazonaws.com\<close>, optionally with a
  \<open>.cn\<close> or other partition suffix. The spec does not list the partition suffixes, so
  the segments admitted after \<open>com\<close> are the parameter \<open>ps\<close>. A match gives the
  account id and the region.
\<close>

fun ecr_segments :: "(string list \<Rightarrow> bool) \<Rightarrow> string list \<Rightarrow> (string \<times> string) option" where
  "ecr_segments ps (acct # d # e # region # a # c # sfx) =
     (if length acct = 12 \<and> list_all is_digit acct \<and> d = ''dkr'' \<and> e = ''ecr'' \<and>
         region \<noteq> [] \<and> a = ''amazonaws'' \<and> c = ''com'' \<and> (sfx = [] \<or> ps sfx)
      then Some (acct, region) else None)"
| "ecr_segments ps segs = None"

definition ecr_host :: "(string list \<Rightarrow> bool) \<Rightarrow> string \<Rightarrow> (string \<times> string) option" where
  "ecr_host ps host = ecr_segments ps (split_on CHR ''.'' host)"

text \<open>
  Modelled from the spec: \<open>azure.ValidHost\<close>, whose code is not among the sources.
  Section 4.1 step 3: the host ends with \<open>.azurecr.io\<close>.
\<close>

definition azure_ValidHost :: "string \<Rightarrow> bool" where
  "azure_ValidHost host = HasSuffix host ''.azurecr.io''"

text \<open>
  Modelled from the spec: \<open>ImageRegistryProvider\<close> of the login package, whose code
  is not among the sources (only its test is). Section 4.1: the host of the parsed
  reference is matched in this order: the ECR pattern gives AWS, else the GCP hosts give
  GCR, else the Azure suffix gives Azure, else Generic. The second test is
  \<open>gcp.ValidHost\<close> of the sources.
\<close>

definition ImageRegistryProvider :: "(string list \<Rightarrow> bool) \<Rightarrow> string \<Rightarrow> Reference \<Rightarrow> Provider" where
  "ImageRegistryProvider ps img ref =
     (let host = registryHost ref in
      if ecr_host ps host \<noteq> None then ProviderAWS
      else if gcp_ValidHost host then ProviderGCR
      else if azure_ValidHost host then ProviderAzure
      else ProviderGeneric)"

text \<open>
  Modelled from the spec: \<open>aws.ParseImage\<close>, whose code is not among the sources (only
  its test is). Section 4.2: the pattern is matched on the registry host substring of the
  image string, which is the part before the first slash; an image with no further path
  after the host is rejected, as is a host that does not match; a rejected image gives
  empty strings and \<open>False\<close>.
\<close>

definition ParseImage :: "(string list \<Rightarrow> bool) \<Rightarrow> string \<Rightarrow> string \<times> string \<times> bool" where
  "ParseImage ps img =
     (let host = takeWhile (\<lambda>c. c \<noteq> CHR ''/'') img;
          rest = dropWhile (\<lambda>c. c \<noteq> CHR ''/'') img in
      case rest of
        s # p # path \<Rightarrow>
          (case ecr_host ps host of
             Some (accountID, region) \<Rightarrow> (accountID, region, True)
           | None \<Rightarrow> ([], [], False))
      | _ \<Rightarrow> ([], [], False))"

section \<open>The AWS exchanger\<close>

text \<open>
  Standard base64 with padding (\<open>base64.StdEncoding\<close>): four characters of the
  alphabet give three bytes; the last group may end in one or two \<open>=\<close> and then gives
  two bytes or one. \<open>None\<close> is a string that is not base64.
\<close>

definition b64_value :: "char \<Rightarrow> nat option" where
  "b64_value c =
     (let n = (of_char c :: nat) in
      if 65 \<le> n \<and> n \<le> 90 then Some (n - 65)
      else if 97 \<le> n \<and> n \<le> 122 then Some (n - 71)
      else if 48 \<le> n \<and> n \<le> 57 then Some (n + 4)
      else if n = 43 then Some 62
      else if n = 47 then Some 63
      else None)"

fun base64_decode :: "string \<Rightarrow> string option" where
  "base64_decode [] = Some []"
| "base64_decode (a # b # c # d # rest) =
     (if rest = [] \<and> d = CHR ''='' then
        (if c = CHR ''='' then
           (case (b64_value a, b64_value b) of
              (Some x, Some y) \<Rightarrow> Some [char_of ((x * 64 + y) div 16)]
            | _ \<Rightarrow> None)
         else
           (case (b64_value a, b64_value b, b64_value c) of
              (Some x, Some y, Some z) \<Rightarrow>
                Some [char_of ((x * 4096 + y * 64 + z) div 1024),
                      char_of ((x * 4096 + y * 64 + z) div 4)]
            | _ \<Rightarrow> None))
      else
        (case (b64_value a, b64_value b, b64_value c, b64_value d) of
           (Some x, Some y, Some z, Some w) \<Rightarrow>
             (case base64_decode rest of
                Some s \<Rightarrow>
                  Some (char_of ((x * 262144 + y * 4096 + z * 64 + w) div 65536) #
                        char_of ((x * 262144 + y * 4096 + z * 64 + w) div 256) #
                        char_of (x * 262144 + y * 4096 + z * 64 + w) # s)
              | None \<Rightarrow> None)
         | _ \<Rightarrow> None))"
| "base64_decode s = None"

text \<open>
  Reading a JSON value: a member of an object (the first with that key), the string a
  value is, the elements of an array. A value of another kind has no member, is no
  string and has no elements.
\<close>

fun object_member :: "string \<Rightarrow> json \<Rightarrow> json option" where
  "object_member k (JObject ms) = map_of ms k"
| "object_member k v = None"

fun string_value :: "json option \<Rightarrow> string option" where
  "string_value (Some (JString s)) = Some s"
| "string_value v = None"

fun array_elements :: "json option \<Rightarrow> json list" where
  "array_elements (Some (JArray vs)) = vs"
| "array_elements v = []"

text \<open>
  Modelled from the spec: the decoding of the authorization-token response in
  \<open>getLoginAuth\<close> of the aws package, whose code is not among the sources (only its
  test is). Sections 4.2, 6 and 8: the response is
  \<open>{"authorizationData":[{"authorizationToken":"<base64 user:pass>"}]}\<close>; the token
  is taken from the first element of the list; an empty or malformed body and an empty
  list fail with InvalidResponse. Section 4.2 also lists the empty list among the decode
  failures it calls InvalidToken; the model follows the failure surface of section 4.2
  and section 8, which both say InvalidResponse. The spec gives no failure for a first
  element without a token; the model counts it as a malformed body.
\<close>

definition authorization_token :: "body \<Rightarrow> error + string" where
  "authorization_token b =
     (case b of
        NotJson msg \<Rightarrow> Inl (ErrInvalidResponse MalformedBody)
      | Json v \<Rightarrow>
          (case array_elements (object_member ''authorizationData'' v) of
             [] \<Rightarrow> Inl (ErrInvalidResponse NoAuthorizationData)
           | d # ds \<Rightarrow>
               (case string_value (object_member ''authorizationToken'' d) of
                  None \<Rightarrow> Inl (ErrInvalidResponse NoAuthorizationToken)
                | Some t \<Rightarrow> Inr t)))"

text \<open>
  Modelled from the spec: the decoding of the token in \<open>getLoginAuth\<close> of the aws
  package, whose code is not among the sources. Section 4.2: the token is base64-decoded
  and split on the first colon into user name and password; malformed base64 and a
  missing colon are distinct failures, both InvalidToken.
\<close>

definition split_token :: "string \<Rightarrow> error + AuthConfig" where
  "split_token t =
     (case base64_decode t of
        None \<Rightarrow> Inl (ErrInvalidToken MalformedBase64)
      | Some s \<Rightarrow>
          if CHR '':'' \<in> set s then
            Inr (zero_AuthConfig\<lparr>Username := takeWhile (\<lambda>c. c \<noteq> CHR '':'') s,
                                 Password := tl (dropWhile (\<lambda>c. c \<noteq> CHR '':'') s)\<rparr>)
          else Inl (ErrInvalidToken MissingSeparator))"

text \<open>
  The clients of the other two exchangers, with what the spec says they are configured
  with: an endpoint for AWS, a scheme for Azure. The cloud is everything the exchangers
  call: the network of the GCP client, the authorization-token call of AWS (endpoint,
  account id, region), the AAD credential and the exchange endpoint of a registry (URL,
  AAD token). An exchange is one such call, recorded when it is made.
\<close>

record ECRClient =
  ecr_endpoint :: string

record ACRClient =
  acr_scheme :: string

record cloud =
  metadata_network :: network
  ecr_GetAuthorizationToken :: "string \<Rightarrow> string \<Rightarrow> string \<Rightarrow> error + body"
  aad_GetToken :: "error + string"
  acr_exchange :: "string \<Rightarrow> string \<Rightarrow> error + response"

datatype exchange =
    MetadataToken request
  | AuthorizationToken string string string
  | AadToken
  | RefreshToken string string

text \<open>
  Modelled from the spec: \<open>getLoginAuth\<close> of the aws package, whose code is not among
  the sources (only its test is). Section 4.2: one call for an authorization token scoped
  to the account and region; an upstream error is propagated as it is; the response is
  decoded as above; a failure gives no credentials.
\<close>

definition aws_getLoginAuth ::
  "cloud \<Rightarrow> ECRClient \<Rightarrow> string \<Rightarrow> string \<Rightarrow> (AuthConfig \<times> error option) \<times> exchange list" where
  "aws_getLoginAuth w c accountID region =
     (let sent = [AuthorizationToken (ecr_endpoint c) accountID region] in
      case ecr_GetAuthorizationToken w (ecr_endpoint c) accountID region of
        Inl err \<Rightarrow> ((zero_AuthConfig, Some err), sent)
      | Inr b \<Rightarrow>
          (case authorization_token b of
             Inl err \<Rightarrow> ((zero_AuthConfig, Some err), sent)
           | Inr t \<Rightarrow>
               (case split_token t of
                  Inl err \<Rightarrow> ((zero_AuthConfig, Some err), sent)
                | Inr authConfig \<Rightarrow> ((authConfig, None), sent))))"

text \<open>
  Modelled from the spec: \<open>Login\<close> of the aws package, whose code is not among the
  sources (only its test is). Section 4.2: without auto-login it fails with
  UnconfiguredProvider; otherwise it parses the image and fails with InvalidImage when
  that fails; otherwise it makes the exchange and wraps the credentials.
\<close>

definition aws_Login ::
  "(string list \<Rightarrow> bool) \<Rightarrow> cloud \<Rightarrow> ECRClient \<Rightarrow> bool \<Rightarrow> string \<Rightarrow>
   (Authenticator option \<times> error option) \<times> exchange list" where
  "aws_Login ps w c autoLogin img =
     (if autoLogin then
        (case ParseImage ps img of
           (accountID, region, ok) \<Rightarrow>
             if \<not> ok then ((None, Some ErrInvalidImage), [])
             else
               (case aws_getLoginAuth w c accountID region of
                  ((authConfig, Some err), sent) \<Rightarrow> ((None, Some err), sent)
                | ((authConfig, None), sent) \<Rightarrow> ((Some (FromConfig authConfig), None), sent)))
      else ((None, Some ErrUnconfiguredProvider), []))"

section \<open>The Azure exchanger\<close>

text \<open>
  Modelled from the spec: the exchange of the azure package, whose code is not among the
  sources. Section 4.4: an AAD token is acquired from the credential; it is exchanged at
  \<open>{scheme}://{registryHost}/oauth2/exchange\<close>, the host being that of the reference;
  a non-200 answer or a body without \<open>refresh_token\<close> is InvalidResponse; otherwise
  the user name is the fixed GUID and the password the refresh token.
\<close>

definition azure_getLoginAuth ::
  "cloud \<Rightarrow> ACRClient \<Rightarrow> Reference \<Rightarrow> (AuthConfig \<times> error option) \<times> exchange list" where
  "azure_getLoginAuth w c ref =
     (case aad_GetToken w of
        Inl err \<Rightarrow> ((zero_AuthConfig, Some err), [AadToken])
      | Inr aad \<Rightarrow>
          (let url = acr_scheme c @ ''://'' @ registryHost ref @ ''/oauth2/exchange'';
               sent = [AadToken, RefreshToken url aad] in
           case acr_exchange w url aad of
             Inl err \<Rightarrow> ((zero_AuthConfig, Some err), sent)
           | Inr r \<Rightarrow>
               if StatusCode r \<noteq> 200 then
                 ((zero_AuthConfig, Some (ErrInvalidResponse UnexpectedStatus)), sent)
               else
                 (case Body r of
                    NotJson msg \<Rightarrow> ((zero_AuthConfig, Some (ErrInvalidResponse MalformedBody)), sent)
                  | Json v \<Rightarrow>
                      (case string_value (object_member ''refresh_token'' v) of
                         None \<Rightarrow> ((zero_AuthConfig, Some (ErrInvalidResponse NoRefreshToken)), sent)
                       | Some t \<Rightarrow>
                           ((zero_AuthConfig\<lparr>Username := ''00000000-0000-0000-0000-000000000000'',
                                              Password := t\<rparr>, None), sent)))))"

text \<open>
  Modelled from the spec: \<open>Login\<close> of the azure package, whose code is not among the
  sources. Section 4.4: without auto-login it fails with UnconfiguredProvider; otherwise
  it makes the exchange and wraps the credentials.
\<close>

definition azure_Login ::
  "cloud \<Rightarrow> ACRClient \<Rightarrow> bool \<Rightarrow> string \<Rightarrow> Reference \<Rightarrow>
   (Authenticator option \<times> error option) \<times> exchange list" where
  "azure_Login w c autoLogin img ref =
     (if autoLogin then
        (case azure_getLoginAuth w c ref of
           ((authConfig, Some err), sent) \<Rightarrow> ((None, Some err), sent)
         | ((authConfig, None), sent) \<Rightarrow> ((Some (FromConfig authConfig), None), sent))
      else ((None, Some ErrUnconfiguredProvider), []))"

section \<open>The manager\<close>

text \<open>
  The options of a login (one auto-login flag per provider; the empty options have none
  set) and the manager: at most one client per provider, none after \<open>NewManager\<close>, set
  by the three injections.
\<close>

record ProviderOptions =
  AwsAutoLogin :: bool
  GcpAutoLogin :: bool
  AzureAutoLogin :: bool

definition empty_ProviderOptions :: ProviderOptions where
  "empty_ProviderOptions = \<lparr>AwsAutoLogin = False, GcpAutoLogin = False, AzureAutoLogin = False\<rparr>"

record Manager =
  ecr :: "ECRClient option"
  gcr :: "Client option"
  acr :: "ACRClient option"

definition NewManager :: Manager where
  "NewManager = \<lparr>ecr = None, gcr = None, acr = None\<rparr>"

definition WithECRClient :: "Manager \<Rightarrow> ECRClient \<Rightarrow> Manager" where
  "WithECRClient m c = m\<lparr>ecr := Some c\<rparr>"

definition WithGCRClient :: "Manager \<Rightarrow> Client \<Rightarrow> Manager" where
  "WithGCRClient m c = m\<lparr>gcr := Some c\<rparr>"

definition WithACRClient :: "Manager \<Rightarrow> ACRClient \<Rightarrow> Manager" where
  "WithACRClient m c = m\<lparr>acr := Some c\<rparr>"

text \<open>
  Modelled from the spec: \<open>Manager.Login\<close> of the login package, whose code is not
  among the sources (only its test is). Section 4.5: the image is classified; for AWS,
  GCR and Azure a missing client fails with UnconfiguredProvider and a client is
  delegated to with the provider's flag, its result returned as it is; for Generic no
  exchange is made and the result is no authenticator and no error. The GCR delegate is
  \<open>Login\<close> of the sources.
\<close>

definition Manager_Login ::
  "(string list \<Rightarrow> bool) \<Rightarrow> cloud \<Rightarrow> Manager \<Rightarrow> string \<Rightarrow> Reference \<Rightarrow> ProviderOptions \<Rightarrow>
   (Authenticator option \<times> error option) \<times> exchange list" where
  "Manager_Login ps w m img ref opts =
     (case ImageRegistryProvider ps img ref of
        ProviderAWS \<Rightarrow>
          (case ecr m of
             None \<Rightarrow> ((None, Some ErrUnconfiguredProvider), [])
           | Some c \<Rightarrow> aws_Login ps w c (AwsAutoLogin opts) img)
      | ProviderGCR \<Rightarrow>
          (case gcr m of
             None \<Rightarrow> ((None, Some ErrUnconfiguredProvider), [])
           | Some c \<Rightarrow>
               (case gcp_Login (metadata_network w) c (GcpAutoLogin opts) img ref of
                  (r, sent) \<Rightarrow> (r, map MetadataToken sent)))
      | ProviderAzure \<Rightarrow>
          (case acr m of
             None \<Rightarrow> ((None, Some ErrUnconfiguredProvider), [])
           | Some c \<Rightarrow> azure_Login w c (AzureAutoLogin opts) img ref)
      | ProviderGeneric \<Rightarrow> ((None, None), []))"

text \<open>
  The cloud of the login test: one server answers every call with status 200 and the
  same body, and the AAD credential gives a fixed token. The body of an
  authorization-token answer with one token, and the reference of an image by its
  registry host and repository.
\<close>

definition test_cloud :: "body \<Rightarrow> cloud" where
  "test_cloud b =
     \<lparr>metadata_network = test_server 200 ''200 OK'' b,
      ecr_GetAuthorizationToken = (\<lambda>endpoint accountID region. Inr b),
      aad_GetToken = Inr ''foo'',
      acr_exchange = (\<lambda>url aad. Inr \<lparr>StatusCode = 200, Status = ''200 OK'', Body = b\<rparr>)\<rparr>"

definition authorization_data :: "string \<Rightarrow> body" where
  "authorization_data t =
     Json (JObject [(''authorizationData'', JArray [JObject [(''authorizationToken'', JString t)]])])"

definition cn_partition :: "string list \<Rightarrow> bool" where
  "cn_partition sfx = (sfx = [''cn''])"

section \<open>The GCP exchanger\<close>

lemma HasSuffix_iff: "HasSuffix s sfx \<longleftrightarrow> (\<exists>p. s = p @ sfx)"
proof
  assume "HasSuffix s sfx"
  then have "s = take (length s - length sfx) s @ sfx"
    by (metis HasSuffix_def append_take_drop_id)
  then show "\<exists>p. s = p @ sfx" ..
next
  assume "\<exists>p. s = p @ sfx"
  then show "HasSuffix s sfx" by (auto simp: HasSuffix_def)
qed

text \<open>
  C2. For every string host, ValidHost(host) is true exactly when host is "gcr.io", or
  ends with ".gcr.io", or ends with "-docker.pkg.dev"; ValidHost("docker.io") is false.
\<close>

theorem gcp_ValidHost_iff:
  "(gcp_ValidHost host =
      (host = ''gcr.io'' \<or> (\<exists>p. host = p @ ''.gcr.io'') \<or> (\<exists>p. host = p @ ''-docker.pkg.dev''))) \<and>
   gcp_ValidHost ''docker.io'' = False"
proof
  show "gcp_ValidHost host =
      (host = ''gcr.io'' \<or> (\<exists>p. host = p @ ''.gcr.io'') \<or> (\<exists>p. host = p @ ''-docker.pkg.dev''))"
    by (simp add: gcp_ValidHost_def HasSuffix_iff)
  show "gcp_ValidHost ''docker.io'' = False"
    by (simp add: gcp_ValidHost_def HasSuffix_def)
qed

text \<open>
  C3. With autoLogin false, Login returns a nil authenticator and an error that wraps
  ErrUnconfiguredProvider, whatever the image, the reference, the client and the
  network, and hands no request to the HTTP client.
\<close>

theorem gcp_Login_no_autoLogin:
  "\<exists>err. gcp_Login net c False img ref = ((None, Some err), []) \<and>
         errors_Is err ErrUnconfiguredProvider"
  by (simp add: gcp_Login_def)






lemma decode_members_errors:
  "snd (decode_members (tok, sv) ms) = Some e \<Longrightarrow> sv = Some e \<or> failure_of e = InvalidResponse"
proof (induction ms arbitrary: tok sv)
  case Nil
  then show ?case by simp
next
  case (Cons m ms)
  obtain tok' sv' where d: "decode_member (tok, sv) m = (tok', sv')" by (cases "decode_member (tok, sv) m")
  have "sv' = sv \<or> (sv = None \<and> (\<exists>a b. sv' = Some (JsonUnmarshalTypeError a b)))"
    using d by (auto simp: decode_member_def Let_def save_error_def split: if_splits option.splits)
  moreover from Cons.prems d have "sv' = Some e \<or> failure_of e = InvalidResponse"
    using Cons.IH by simp
  ultimately show ?case by auto
qed

lemma Decode_errors:
  "snd (Decode b tok) = Some e \<Longrightarrow> failure_of e = InvalidResponse"
proof (cases b)
  case (NotJson msg)
  assume "snd (Decode b tok) = Some e"
  with NotJson show ?thesis by auto
next
  case (Json v)
  assume "snd (Decode b tok) = Some e"
  with Json show ?thesis
    by (cases v) (auto dest: decode_members_errors)
qed

lemma gcp_getLoginAuth_response:
  assumes "new_request_error net ''GET'' (tokenURL c) = None"
    and "round_trip net (metadata_request c) = Inr r"
  shows "gcp_getLoginAuth net c =
           (if StatusCode r \<noteq> 200 then
              ((zero_AuthConfig,
                Some (Errorf (''unexpected status from metadata service: '' @ Status r))),
               [metadata_request c])
            else
              (case snd (Decode (Body r) zero_gceToken) of
                 Some err \<Rightarrow> ((zero_AuthConfig, Some err), [metadata_request c])
               | None \<Rightarrow>
                   ((zero_AuthConfig\<lparr>Username := ''oauth2accesstoken'',
                       Password := AccessToken (fst (Decode (Body r) zero_gceToken))\<rparr>, None),
                    [metadata_request c])))"
proof -
  have rq: "Header_Add \<lparr>req_method = ''GET'', req_url = tokenURL c, req_header = []\<rparr>
              ''Metadata-Flavor'' ''Google'' = metadata_request c"
    by (simp add: Header_Add_def metadata_request_def)
  show ?thesis
    using assms
    by (simp add: gcp_getLoginAuth_def NewRequestWithContext_def rq Let_def
             split: prod.splits option.splits)
qed





text \<open>
  C5. Whatever the token endpoint answers: with a status other than 200 the exchange
  fails with an error whose message ends with the status text of the response; with
  status 200 and a body the decoder reports an error for, it fails with that error,
  which is an InvalidResponse failure. In both cases getLoginAuth returns the zero
  AuthConfig and Login returns a nil authenticator.
\<close>

theorem gcp_exchange_failure:
  assumes "new_request_error net ''GET'' (tokenURL c) = None"
    and "round_trip net (metadata_request c) = Inr r"
    and "StatusCode r \<noteq> 200 \<or> snd (Decode (Body r) zero_gceToken) \<noteq> None"
  shows "\<exists>err.
           gcp_getLoginAuth net c = ((zero_AuthConfig, Some err), [metadata_request c]) \<and>
           gcp_Login net c True img ref = ((None, Some err), [metadata_request c]) \<and>
           failure_of err = InvalidResponse \<and>
           (if StatusCode r \<noteq> 200
            then err = Errorf (''unexpected status from metadata service: '' @ Status r)
            else snd (Decode (Body r) zero_gceToken) = Some err)"
proof (cases "StatusCode r \<noteq> 200")
  case True
  then have "gcp_getLoginAuth net c =
      ((zero_AuthConfig, Some (Errorf (''unexpected status from metadata service: '' @ Status r))),
       [metadata_request c])"
    using gcp_getLoginAuth_response [OF assms(1,2)] by simp
  with True show ?thesis by (simp add: gcp_Login_def)
next
  case False
  with assms(3) obtain err where e: "snd (Decode (Body r) zero_gceToken) = Some err" by auto
  with False have "gcp_getLoginAuth net c = ((zero_AuthConfig, Some err), [metadata_request c])"
    using gcp_getLoginAuth_response [OF assms(1,2)] by simp
  with False e Decode_errors [OF e] show ?thesis by (simp add: gcp_Login_def)
qed

theorem gcp_exchange_failure_witness:
  "(\<exists>err.
      gcp_getLoginAuth (test_server 500 ''500 Internal Server Error'' (NotJson ''EOF''))
        (WithTokenURL NewClient ''http://127.0.0.1:8080'') =
        ((zero_AuthConfig, Some err), [metadata_request (WithTokenURL NewClient ''http://127.0.0.1:8080'')]) \<and>
      err = Errorf ''unexpected status from metadata service: 500 Internal Server Error'') \<and>
   (\<exists>err.
      gcp_getLoginAuth (test_server 200 ''200 OK'' (NotJson ''invalid character'')) 
        (WithTokenURL NewClient ''http://127.0.0.1:8080'') =
        ((zero_AuthConfig, Some err), [metadata_request (WithTokenURL NewClient ''http://127.0.0.1:8080'')]) \<and>
      err = JsonSyntaxError ''invalid character'')"
  using gcp_exchange_failure
    [of "test_server 500 ''500 Internal Server Error'' (NotJson ''EOF'')"
        "WithTokenURL NewClient ''http://127.0.0.1:8080''"
        "\<lparr>StatusCode = 500, Status = ''500 Internal Server Error'', Body = NotJson ''EOF''\<rparr>"]
    gcp_exchange_failure
    [of "test_server 200 ''200 OK'' (NotJson ''invalid character'')"
        "WithTokenURL NewClient ''http://127.0.0.1:8080''"
        "\<lparr>StatusCode = 200, Status = ''200 OK'', Body = NotJson ''invalid character''\<rparr>"]
  by (simp add: test_server_def)

text \<open>
  C6. Login does not look at the image: with autoLogin true its result, and the
  request it sends, are the same for every image and reference; and whenever the
  endpoint answers 200 with a body that decodes, Login sends the metadata request and
  succeeds, for a GCR image and for any other.
\<close>

theorem gcp_Login_any_image:
  assumes "new_request_error net ''GET'' (tokenURL c) = None"
    and "round_trip net (metadata_request c) = Inr r"
    and "StatusCode r = 200"
    and "snd (Decode (Body r) zero_gceToken) = None"
  shows "gcp_Login net c True img ref = gcp_Login net c True img' ref' \<and>
         (\<exists>auth. gcp_Login net c True img ref = ((Some auth, None), [metadata_request c]))"
  using gcp_getLoginAuth_response [OF assms(1,2)] assms(3,4)
  by (simp add: gcp_Login_def)

theorem gcp_Login_any_image_witness:
  "\<exists>auth.
     gcp_Login
       (test_server 200 ''200 OK''
          (Json (JObject [(''access_token'', JString ''some-token''),
                          (''expires_in'', JNumber (IntLit 10)),
                          (''token_type'', JString ''foo'')])))
       (WithTokenURL NewClient ''http://127.0.0.1:8080'') True ''foo/bar:v1''
       \<lparr>registryHost = ''index.docker.io'', repository = ''foo/bar''\<rparr> =
     ((Some auth, None), [metadata_request (WithTokenURL NewClient ''http://127.0.0.1:8080'')])"
  using gcp_Login_any_image
    [of "test_server 200 ''200 OK''
          (Json (JObject [(''access_token'', JString ''some-token''),
                          (''expires_in'', JNumber (IntLit 10)),
                          (''token_type'', JString ''foo'')]))"
        "WithTokenURL NewClient ''http://127.0.0.1:8080''"
        "\<lparr>StatusCode = 200, Status = ''200 OK'',
          Body = Json (JObject [(''access_token'', JString ''some-token''),
                          (''expires_in'', JNumber (IntLit 10)),
                          (''token_type'', JString ''foo'')])\<rparr>"
        "''foo/bar:v1''" "\<lparr>registryHost = ''index.docker.io'', repository = ''foo/bar''\<rparr>"]
  by (simp add: test_server_def decode_member_def field_matches_def toUpper_def)



end
